theory Spec2Isabelle
  imports Main
begin

section \<open>The matrix-formatting cell of the quantum-gates notebook\<close>

text \<open>
  The last code cell of \<^verbatim>\<open>content/ch-gates/quantum-gates.ipynb\<close>, once the simulator
  has returned the unitary matrix \<^verbatim>\<open>gate\<close>, turns it into a LaTeX \<^verbatim>\<open>pmatrix\<close>
  expression held in the variable \<^verbatim>\<open>gate_latex\<close>:
  \<^item> the names \<^verbatim>\<open>display\<close>, \<^verbatim>\<open>Markdown\<close> and \<^verbatim>\<open>Latex\<close> are imported;
  \<^item> \<^verbatim>\<open>gate_latex\<close> is set to a backslash followed by \<^verbatim>\<open>begin{pmatrix}\<close>;
  \<^item> for every \<^verbatim>\<open>line\<close> of \<^verbatim>\<open>gate\<close>: for every \<^verbatim>\<open>element\<close> of the line,
    \<^verbatim>\<open>gate_latex += str(element) + '&'\<close>; then \<^verbatim>\<open>gate_latex = gate_latex[0:-1]\<close>;
    then two backslashes are appended;
  \<^item> \<^verbatim>\<open>gate_latex = gate_latex[0:-2]\<close>;
  \<^item> a backslash followed by \<^verbatim>\<open>end{pmatrix}\<close> is appended;
  \<^item> \<^verbatim>\<open>display(Markdown(gate_latex))\<close> shows the string.

  The specification calls this computation \<^verbatim>\<open>format\<close>. A HOL string literal cannot hold
  a backslash, so the backslash is the character \<open>bs\<close> below.
\<close>

subsection \<open>Strings of the cell\<close>

abbreviation bs :: char where
  "bs \<equiv> CHR 0x5C"

definition pmatrix_prefix :: string where
  "pmatrix_prefix = bs # ''begin{pmatrix}''"

definition pmatrix_suffix :: string where
  "pmatrix_suffix = bs # ''end{pmatrix}''"

definition col_delim :: string where
  "col_delim = ''&''"

definition row_delim :: string where
  "row_delim = [bs, bs]"

text \<open>
  Python's \<^verbatim>\<open>s[0:-k]\<close> for a positive \<open>k\<close>: the stop index \<open>len(s) - k\<close> is clamped at
  \<open>0\<close>, so a string shorter than \<open>k\<close> becomes empty and nothing is raised.
\<close>

definition slice_to_neg :: "string \<Rightarrow> nat \<Rightarrow> string" where
  "slice_to_neg s k = take (length s - k) s"

subsection \<open>The cell as a state transformer\<close>

text \<open>
  The state of the notebook that these statements read and write: the matrix, the string
  under construction, the loop variables \<^verbatim>\<open>line\<close> and \<^verbatim>\<open>element\<close> (a Python loop
  variable stays bound, after the loop, to the last value visited, and is left as it was
  when the loop body never runs), the strings handed to \<^verbatim>\<open>display\<close> so far, and the
  names bound by the import. The rendering \<^verbatim>\<open>str(element)\<close> of a matrix element is
  Python's, not the notebook's: it is the parameter \<open>str\<close> of the model.
\<close>

record 'a cell =
  gate :: "'a list list"
  gate_latex :: string
  loop_line :: "'a list option"
  loop_element :: "'a option"
  displayed :: "string list"
  imported :: "string set"

fun inner_loop :: "('a \<Rightarrow> string) \<Rightarrow> 'a list \<Rightarrow> 'a cell \<Rightarrow> 'a cell" where
  "inner_loop str [] s = s"
| "inner_loop str (element # rest) s =
     (let s1 = s\<lparr>loop_element := Some element\<rparr>;
          s2 = s1\<lparr>gate_latex := gate_latex s1 @ (str element @ ''&'')\<rparr>
      in inner_loop str rest s2)"

fun outer_loop :: "('a \<Rightarrow> string) \<Rightarrow> 'a list list \<Rightarrow> 'a cell \<Rightarrow> 'a cell" where
  "outer_loop str [] s = s"
| "outer_loop str (line # rest) s =
     (let s0 = s\<lparr>loop_line := Some line\<rparr>;
          s1 = inner_loop str line s0;
          s2 = s1\<lparr>gate_latex := slice_to_neg (gate_latex s1) 1\<rparr>;
          s3 = s2\<lparr>gate_latex := gate_latex s2 @ [bs, bs]\<rparr>
      in outer_loop str rest s3)"

definition run_cell :: "('a \<Rightarrow> string) \<Rightarrow> 'a cell \<Rightarrow> 'a cell" where
  "run_cell str s =
     (let s0 = s\<lparr>imported := imported s \<union> {''display'', ''Markdown'', ''Latex''}\<rparr>;
          s1 = s0\<lparr>gate_latex := bs # ''begin{pmatrix}''\<rparr>;
          s2 = outer_loop str (gate s1) s1;
          s3 = s2\<lparr>gate_latex := slice_to_neg (gate_latex s2) 2\<rparr>;
          s4 = s3\<lparr>gate_latex := gate_latex s3 @ (bs # ''end{pmatrix}'')\<rparr>;
          s5 = s4\<lparr>displayed := displayed s4 @ [gate_latex s4]\<rparr>
      in s5)"

text \<open>
  A notebook state in which only \<^verbatim>\<open>gate\<close> is bound, to the matrix \<open>M\<close>, and the string
  the cell builds, and displays, when it runs from that state.
\<close>

definition fresh_cell :: "'a list list \<Rightarrow> 'a cell" where
  "fresh_cell M = \<lparr>gate = M, gate_latex = [], loop_line = None, loop_element = None,
                    displayed = [], imported = {}\<rparr>"

definition gate_latex_of :: "('a \<Rightarrow> string) \<Rightarrow> 'a list list \<Rightarrow> string" where
  "gate_latex_of str M = gate_latex (run_cell str (fresh_cell M))"

text \<open>
  Errors as values. The cell has no \<^verbatim>\<open>raise\<close>, no shape check and no indexing that
  could fail: every path through it ends with the string, so the outcome of
  \<^verbatim>\<open>format\<close> is always the right injection.
\<close>

datatype error = InvalidShapeError

definition format :: "('a \<Rightarrow> string) \<Rightarrow> 'a list list \<Rightarrow> error + string" where
  "format str M = Inr (gate_latex_of str M)"

subsection \<open>Rendering of complex values\<close>

text \<open>
  Modelled from the spec: the textual form of a complex number is that of Python's
  built-in \<^verbatim>\<open>str\<close>, which is no part of the repository; the specification names the
  \<^verbatim>\<open>(1+0j)\<close> style and the notebook's recorded output shows \<^verbatim>\<open>0j\<close>, \<^verbatim>\<open>(1+0j)\<close> and
  \<^verbatim>\<open>(-1+0j)\<close>. The model covers complex values whose real and imaginary parts are whole
  numbers (short enough to print without an exponent): a real part \<open>0\<close> prints the
  imaginary part followed by \<^verbatim>\<open>j\<close>; otherwise the real part and the signed imaginary part
  are printed between parentheses.
\<close>

datatype pycomplex = PyComplex (real_part: int) (imag_part: int)

definition digit_char :: "nat \<Rightarrow> char" where
  "digit_char d = ''0123456789'' ! (d mod 10)"

fun str_nat :: "nat \<Rightarrow> string" where
  "str_nat n = (if n < 10 then [digit_char n] else str_nat (n div 10) @ [digit_char n])"

definition str_int :: "int \<Rightarrow> string" where
  "str_int i = (if i < 0 then ''-'' @ str_nat (nat (- i)) else str_nat (nat i))"

definition str_complex :: "pycomplex \<Rightarrow> string" where
  "str_complex z =
     (if real_part z = 0 then str_int (imag_part z) @ ''j''
      else ''('' @ str_int (real_part z)
           @ (if imag_part z < 0 then ''-'' else ''+'') @ str_nat (nat \<bar>imag_part z\<bar>) @ ''j)'')"

subsection \<open>Reading the output back, as the specification words it\<close>

text \<open>
  The specification's properties speak of the output with the prefix and suffix stripped
  and the rest split on the delimiters. These definitions follow the specification's
  words; they are not code of the notebook. Splitting is Python's \<^verbatim>\<open>s.split(sep)\<close> for a
  non-empty separator (occurrences found from the left, not overlapping; the empty string
  splits into one empty piece) and counting is \<^verbatim>\<open>s.count(sep)\<close>.
\<close>

definition rectangular :: "'a list list \<Rightarrow> nat \<Rightarrow> bool" where
  "rectangular M c = (\<forall>row \<in> set M. length row = c)"

definition starts_with :: "string \<Rightarrow> string \<Rightarrow> bool" where
  "starts_with p s = (take (length p) s = p)"

definition ends_with :: "string \<Rightarrow> string \<Rightarrow> bool" where
  "ends_with q s = (length q \<le> length s \<and> drop (length s - length q) s = q)"

definition strip_affixes :: "string \<Rightarrow> string option" where
  "strip_affixes s =
     (if length pmatrix_prefix + length pmatrix_suffix \<le> length s
         \<and> starts_with pmatrix_prefix s \<and> ends_with pmatrix_suffix s
      then Some (take (length s - length pmatrix_prefix - length pmatrix_suffix)
                      (drop (length pmatrix_prefix) s))
      else None)"

fun body_of :: "error + string \<Rightarrow> string option" where
  "body_of (Inl e) = None"
| "body_of (Inr s) = strip_affixes s"

function split_on :: "string \<Rightarrow> string \<Rightarrow> string list" where
  "split_on sep s =
     (if s = [] then [[]]
      else if sep \<noteq> [] \<and> take (length sep) s = sep
           then [] # split_on sep (drop (length sep) s)
      else (case split_on sep (tl s) of
              [] \<Rightarrow> [[hd s]]
            | r # rs \<Rightarrow> (hd s # r) # rs))"
  by pat_completeness auto
termination
  by (relation "measure (\<lambda>(sep, s). length s)") auto

function count_sub :: "string \<Rightarrow> string \<Rightarrow> nat" where
  "count_sub sep s =
     (if s = [] then 0
      else if sep \<noteq> [] \<and> take (length sep) s = sep
           then Suc (count_sub sep (drop (length sep) s))
      else count_sub sep (tl s))"
  by pat_completeness auto
termination
  by (relation "measure (\<lambda>(sep, s). length s)") auto

fun parse_entries :: "error + string \<Rightarrow> string list list option" where
  "parse_entries r =
     (case body_of r of
        None \<Rightarrow> None
      | Some b \<Rightarrow> Some (map (split_on col_delim) (split_on row_delim b)))"

text \<open>
  The renderings of the elements of \<open>M\<close> hold neither delimiter character. Python's
  \<^verbatim>\<open>str\<close> of a complex number is made of digits, signs, a point, parentheses and
  letters, so it has this property.
\<close>

definition delimiter_free :: "('a \<Rightarrow> string) \<Rightarrow> 'a list list \<Rightarrow> bool" where
  "delimiter_free str M =
     (\<forall>row \<in> set M. \<forall>e \<in> set row. bs \<notin> set (str e) \<and> CHR ''&'' \<notin> set (str e))"

text \<open>
  The matrix of the notebook's example, the tensor product of \<open>Z\<close> and \<open>X\<close> that the
  simulator returns for the circuit of the cell.
\<close>

definition zx_unitary :: "pycomplex list list" where
  "zx_unitary =
     [[PyComplex 0 0, PyComplex 1 0, PyComplex 0 0, PyComplex 0 0],
      [PyComplex 1 0, PyComplex 0 0, PyComplex 0 0, PyComplex 0 0],
      [PyComplex 0 0, PyComplex 0 0, PyComplex 0 0, PyComplex (- 1) 0],
      [PyComplex 0 0, PyComplex 0 0, PyComplex (- 1) 0, PyComplex 0 0]]"

subsection \<open>Closed forms used in the proofs\<close>

text \<open>Python's \<^verbatim>\<open>sep.join(pieces)\<close>.\<close>

fun join :: "string \<Rightarrow> string list \<Rightarrow> string" where
  "join sep [] = []"
| "join sep [p] = p"
| "join sep (p # q # ps) = p @ sep @ join sep (q # ps)"

text \<open>A row as it should appear in the output: its rendered entries, the column
  delimiter between them.\<close>

definition render_row :: "('a \<Rightarrow> string) \<Rightarrow> 'a list \<Rightarrow> string" where
  "render_row str line = join col_delim (map str line)"

text \<open>The value of \<^verbatim>\<open>gate_latex\<close> after the outer loop has run over \<open>ls\<close>, starting
  from the string \<open>acc\<close>.\<close>

fun loop_text :: "('a \<Rightarrow> string) \<Rightarrow> 'a list list \<Rightarrow> string \<Rightarrow> string" where
  "loop_text str [] acc = acc"
| "loop_text str (line # rest) acc =
     loop_text str rest
       (slice_to_neg (acc @ concat (map (\<lambda>e. str e @ ''&'') line)) 1 @ [bs, bs])"

text \<open>The value of the loop variable \<^verbatim>\<open>element\<close> after the outer loop has run over
  \<open>ls\<close>: the last element of the last row that is not empty, or the old value.\<close>

fun last_element :: "'a list list \<Rightarrow> 'a option \<Rightarrow> 'a option" where
  "last_element [] e = e"
| "last_element (line # rest) e = last_element rest (if line = [] then e else Some (last line))"

text \<open>What a row other than the first adds to the output: an empty row loses one
  character to the trim and so adds a single backslash.\<close>

definition later_row :: "('a \<Rightarrow> string) \<Rightarrow> 'a list \<Rightarrow> string" where
  "later_row str line = (if line = [] then [bs] else row_delim @ render_row str line)"

declare str_nat.simps [simp del]

declare split_on.simps [simp del]

declare count_sub.simps [simp del]

section \<open>The loops in closed form\<close>

lemma inner_loop_state:
  "inner_loop str line s
     = s\<lparr>gate_latex := gate_latex s @ concat (map (\<lambda>e. str e @ ''&'') line),
         loop_element := (if line = [] then loop_element s else Some (last line))\<rparr>"
  by (induction line arbitrary: s) (simp_all add: Let_def)

lemma outer_loop_state:
  "outer_loop str ls s
     = s\<lparr>gate_latex := loop_text str ls (gate_latex s),
         loop_line := (if ls = [] then loop_line s else Some (last ls)),
         loop_element := last_element ls (loop_element s)\<rparr>"
  by (induction ls arbitrary: s) (simp_all add: inner_loop_state Let_def)

lemma run_cell_state:
  "run_cell str s
     = s\<lparr>gate_latex := slice_to_neg (loop_text str (gate s) pmatrix_prefix) 2 @ pmatrix_suffix,
         loop_line := (if gate s = [] then loop_line s else Some (last (gate s))),
         loop_element := last_element (gate s) (loop_element s),
         displayed := displayed s
            @ [slice_to_neg (loop_text str (gate s) pmatrix_prefix) 2 @ pmatrix_suffix],
         imported := imported s \<union> {''display'', ''Markdown'', ''Latex''}\<rparr>"
  by (simp add: run_cell_def outer_loop_state Let_def pmatrix_prefix_def pmatrix_suffix_def)

lemma gate_latex_of_loop_text:
  "gate_latex_of str M = slice_to_neg (loop_text str M pmatrix_prefix) 2 @ pmatrix_suffix"
  by (simp add: gate_latex_of_def run_cell_state fresh_cell_def)

lemma run_cell_frame:
  "run_cell str s
     = s\<lparr>gate_latex := gate_latex_of str (gate s),
         loop_line := (if gate s = [] then loop_line s else Some (last (gate s))),
         loop_element := last_element (gate s) (loop_element s),
         displayed := displayed s @ [gate_latex_of str (gate s)],
         imported := imported s \<union> {''display'', ''Markdown'', ''Latex''}\<rparr>"
  by (simp add: run_cell_state gate_latex_of_loop_text)

lemma concat_amp_render_row:
  "line \<noteq> [] \<Longrightarrow> concat (map (\<lambda>e. str e @ ''&'') line) = render_row str line @ ''&''"
  by (induction line rule: induct_list012) (simp_all add: render_row_def col_delim_def)

lemma slice_to_neg_append: "slice_to_neg (xs @ ys) (length ys) = xs"
  by (simp add: slice_to_neg_def)

lemma row_trim_nonempty:
  assumes "line \<noteq> []"
  shows "slice_to_neg (acc @ concat (map (\<lambda>e. str e @ ''&'') line)) (Suc 0)
           = acc @ render_row str line"
  using slice_to_neg_append [of "acc @ render_row str line" "''&''"]
  by (simp add: concat_amp_render_row [OF assms])

lemma row_trim_after_delim: "slice_to_neg (a @ row_delim) (Suc 0) = a @ [bs]"
  using slice_to_neg_append [of "a @ [bs]" "[bs]"] by (simp add: row_delim_def)

lemma final_trim_after_delim: "slice_to_neg (a @ row_delim) 2 = a"
  by (simp add: slice_to_neg_def row_delim_def)

lemma loop_text_after_delim:
  "loop_text str ls (a @ row_delim) = a @ concat (map (later_row str) ls) @ row_delim"
proof (induction ls arbitrary: a)
  case Nil
  show ?case by simp
next
  case (Cons line rest)
  show ?case
  proof (cases "line = []")
    case True
    then have lr: "later_row str line = [bs]"
      by (simp add: later_row_def)
    have step: "loop_text str (line # rest) (a @ row_delim)
                  = loop_text str rest ((a @ [bs]) @ row_delim)"
      using True row_trim_after_delim [of a] by (simp add: row_delim_def)
    show ?thesis unfolding step Cons.IH by (simp add: lr)
  next
    case False
    then have lr: "later_row str line = row_delim @ render_row str line"
      by (simp add: later_row_def)
    have step: "loop_text str (line # rest) (a @ row_delim)
            = loop_text str rest ((a @ row_delim @ render_row str line) @ row_delim)"
      using row_trim_nonempty [OF False, of "a @ row_delim" str] by (simp add: row_delim_def)
    show ?thesis unfolding step Cons.IH by (simp add: lr)
  qed
qed

lemma gate_latex_of_Nil:
  "gate_latex_of str [] = bs # ''begin{pmatri'' @ pmatrix_suffix"
  by (simp add: gate_latex_of_loop_text pmatrix_prefix_def slice_to_neg_def)

lemma gate_latex_of_Cons:
  "gate_latex_of str (line # rest)
     = (if line = [] then bs # ''begin{pmatrix'' else pmatrix_prefix @ render_row str line)
       @ concat (map (later_row str) rest) @ pmatrix_suffix"
proof -
  define a where "a = (if line = [] then bs # ''begin{pmatrix'' else pmatrix_prefix @ render_row str line)"
  have first: "slice_to_neg (pmatrix_prefix @ concat (map (\<lambda>e. str e @ ''&'') line)) (Suc 0) = a"
  proof (cases "line = []")
    case True
    then show ?thesis by (simp add: a_def pmatrix_prefix_def slice_to_neg_def)
  next
    case False
    then show ?thesis by (simp add: a_def row_trim_nonempty)
  qed
  have "loop_text str (line # rest) pmatrix_prefix = loop_text str rest (a @ row_delim)"
    using first by (simp add: row_delim_def)
  then have "loop_text str (line # rest) pmatrix_prefix
               = (a @ concat (map (later_row str) rest)) @ row_delim"
    by (simp add: loop_text_after_delim)
  then have "slice_to_neg (loop_text str (line # rest) pmatrix_prefix) 2
                  = a @ concat (map (later_row str) rest)"
    by (simp only: final_trim_after_delim)
  then show ?thesis by (simp add: gate_latex_of_loop_text a_def)
qed

lemma gate_latex_of_total:
  "gate_latex_of str M
     = (case M of
          [] \<Rightarrow> bs # ''begin{pmatri''
        | line # rest \<Rightarrow>
            (if line = [] then bs # ''begin{pmatrix'' else pmatrix_prefix @ render_row str line)
            @ concat (map (later_row str) rest))
       @ pmatrix_suffix"
  by (cases M) (simp_all add: gate_latex_of_Nil gate_latex_of_Cons)

lemma later_rows_joined:
  "[] \<notin> set rest \<Longrightarrow>
     render_row str line @ concat (map (later_row str) rest)
       = join row_delim (map (render_row str) (line # rest))"
  by (induction rest arbitrary: line) (auto simp: later_row_def)

lemma gate_latex_of_joined:
  assumes "M \<noteq> []" and "[] \<notin> set M"
  shows "gate_latex_of str M
           = pmatrix_prefix @ join row_delim (map (render_row str) M) @ pmatrix_suffix"
proof -
  from assms obtain line rest where M: "M = line # rest" and "line \<noteq> []" and "[] \<notin> set rest"
    by (cases M) auto
  then show ?thesis
    using later_rows_joined [of rest str line] by (simp add: gate_latex_of_Cons)
qed

lemma str_complex_0: "str_complex (PyComplex 0 0) = ''0j''"
  by (simp add: str_complex_def str_int_def str_nat.simps digit_char_def)

lemma str_complex_1: "str_complex (PyComplex 1 0) = ''(1+0j)''"
  by (simp add: str_complex_def str_int_def str_nat.simps digit_char_def)

lemma str_complex_m1: "str_complex (PyComplex (-1) 0) = ''(-1+0j)''"
  by (simp add: str_complex_def str_int_def str_nat.simps digit_char_def)

lemma gate_latex_of_ends_with: "ends_with pmatrix_suffix (gate_latex_of str M)"
  by (simp add: gate_latex_of_total ends_with_def)

lemma gate_latex_of_starts_with:
  "line \<noteq> [] \<Longrightarrow> starts_with pmatrix_prefix (gate_latex_of str (line # rest))"
  by (simp add: gate_latex_of_Cons starts_with_def)

lemma rectangular_zero_replicate: "rectangular M 0 \<Longrightarrow> M = replicate (length M) []"
  by (induction M) (simp_all add: rectangular_def)

lemma later_rows_empty:
  "concat (map (later_row str) (replicate n [])) = replicate n bs"
  by (induction n) (simp_all add: later_row_def)

lemma gate_latex_of_zero_size:
  assumes "rectangular M 0"
  shows "gate_latex_of str M
           = (if M = [] then bs # ''begin{pmatri''
              else bs # ''begin{pmatrix'' @ replicate (length M - 1) bs) @ pmatrix_suffix"
proof (cases M)
  case Nil
  then show ?thesis by (simp add: gate_latex_of_Nil)
next
  case (Cons line rest)
  with assms have "line = []" and "rectangular rest 0"
    by (simp_all add: rectangular_def)
  then have "line = []" and "rest = replicate (length rest) []"
    by (simp_all add: rectangular_zero_replicate [symmetric])
  then have "gate_latex_of str (line # rest)
               = bs # ''begin{pmatrix'' @ replicate (length rest) bs @ pmatrix_suffix"
    using later_rows_empty [of str "length rest"] by (simp add: gate_latex_of_Cons)
  with Cons show ?thesis by simp
qed

lemma rectangular_first_row:
  "rectangular M c \<Longrightarrow> 0 < length M \<Longrightarrow> 0 < c \<Longrightarrow> \<exists>line rest. M = line # rest \<and> line \<noteq> []"
  by (cases M) (auto simp: rectangular_def)

section \<open>Splitting and counting on a delimiter\<close>

text \<open>
  A piece that does not hold the first character of the separator cannot hold the
  separator, so splitting a joined list of such pieces gives the pieces back, and the
  separator occurs once between two neighbours.
\<close>

lemma split_on_no_sep:
  "d \<notin> set p \<Longrightarrow> split_on (d # ds) p = [p]"
proof (induction p)
  case Nil
  show ?case by (simp add: split_on.simps)
next
  case (Cons x p)
  then have "x \<noteq> d" and IH: "split_on (d # ds) p = [p]" by auto
  then show ?case
    by (subst split_on.simps) simp
qed

lemma split_on_piece:
  "d \<notin> set p \<Longrightarrow> split_on (d # ds) (p @ d # ds @ rest) = p # split_on (d # ds) rest"
proof (induction p)
  case Nil
  show ?case by (subst split_on.simps) simp
next
  case (Cons x p)
  then have "x \<noteq> d"
    and IH: "split_on (d # ds) (p @ d # ds @ rest) = p # split_on (d # ds) rest" by auto
  then show ?case
    by (subst split_on.simps) simp
qed

lemma split_on_join:
  "ps \<noteq> [] \<Longrightarrow> \<forall>p \<in> set ps. d \<notin> set p \<Longrightarrow> split_on (d # ds) (join (d # ds) ps) = ps"
proof (induction ps rule: induct_list012)
  case 1
  then show ?case by simp
next
  case (2 p)
  then show ?case by (simp add: split_on_no_sep)
next
  case (3 p q ps)
  then show ?case by (simp add: split_on_piece)
qed

lemma count_sub_no_sep:
  "d \<notin> set p \<Longrightarrow> count_sub (d # ds) p = 0"
proof (induction p)
  case Nil
  show ?case by (simp add: count_sub.simps)
next
  case (Cons x p)
  then have "x \<noteq> d" and IH: "count_sub (d # ds) p = 0" by auto
  then show ?case
    by (subst count_sub.simps) simp
qed

lemma count_sub_piece:
  "d \<notin> set p \<Longrightarrow>
     count_sub (d # ds) (p @ d # ds @ rest) = Suc (count_sub (d # ds) rest)"
proof (induction p)
  case Nil
  show ?case by (subst count_sub.simps) simp
next
  case (Cons x p)
  then have "x \<noteq> d"
    and IH: "count_sub (d # ds) (p @ d # ds @ rest) = Suc (count_sub (d # ds) rest)" by auto
  then show ?case
    by (subst count_sub.simps) simp
qed

lemma count_sub_join:
  "ps \<noteq> [] \<Longrightarrow> \<forall>p \<in> set ps. d \<notin> set p \<Longrightarrow>
     count_sub (d # ds) (join (d # ds) ps) = length ps - 1"
proof (induction ps rule: induct_list012)
  case 1
  then show ?case by simp
next
  case (2 p)
  then show ?case by (simp add: count_sub_no_sep)
next
  case (3 p q ps)
  then show ?case by (simp add: count_sub_piece)
qed

lemma set_join: "set (join sep ps) \<subseteq> set sep \<union> \<Union> (set ` set ps)"
  by (induction ps rule: induct_list012) auto

lemma strip_affixes_wrapped: "strip_affixes (pmatrix_prefix @ b @ pmatrix_suffix) = Some b"
  by (simp add: strip_affixes_def starts_with_def ends_with_def)

lemma render_row_no_bs:
  "\<forall>e \<in> set line. bs \<notin> set (str e) \<Longrightarrow> bs \<notin> set (render_row str line)"
  using set_join [of col_delim "map str line"] by (auto simp: render_row_def col_delim_def)

lemma split_render_row:
  "line \<noteq> [] \<Longrightarrow> \<forall>e \<in> set line. CHR ''&'' \<notin> set (str e) \<Longrightarrow>
     split_on col_delim (render_row str line) = map str line"
  using split_on_join [of "map str line" "CHR ''&''" "[]"] by (simp add: render_row_def col_delim_def)

lemma count_render_row:
  "line \<noteq> [] \<Longrightarrow> \<forall>e \<in> set line. CHR ''&'' \<notin> set (str e) \<Longrightarrow>
     count_sub col_delim (render_row str line) = length line - 1"
  using count_sub_join [of "map str line" "CHR ''&''" "[]"] by (simp add: render_row_def col_delim_def)

section \<open>The rendering of a complex value holds no delimiter\<close>

lemma digit_char_in: "digit_char d \<in> set ''0123456789''"
  unfolding digit_char_def by (rule nth_mem) simp

lemma str_nat_chars: "c \<notin> set ''0123456789'' \<Longrightarrow> c \<notin> set (str_nat n)"
proof (induction n rule: str_nat.induct)
  case (1 n)
  from "1.prems" have d: "digit_char n \<noteq> c"
    using digit_char_in [of n] by blast
  show ?case
  proof (cases "n < 10")
    case True
    then have "str_nat n = [digit_char n]" by (subst str_nat.simps) simp
    with d show ?thesis by simp
  next
    case False
    then have "str_nat n = str_nat (n div 10) @ [digit_char n]" by (subst str_nat.simps) simp
    with d "1.IH" [OF False "1.prems"] show ?thesis by simp
  qed
qed

lemma str_int_chars:
  "c \<notin> set ''0123456789'' \<Longrightarrow> c \<noteq> CHR ''-'' \<Longrightarrow> c \<notin> set (str_int i)"
  using str_nat_chars [of c "nat (- i)"] str_nat_chars [of c "nat i"]
  by (simp add: str_int_def)

lemma str_complex_chars:
  assumes "c \<notin> set ''0123456789''" and "c \<notin> set ''-+()j''"
  shows "c \<notin> set (str_complex z)"
proof -
  from assms(2) have m: "c \<noteq> CHR ''-''" by simp
  note a = str_int_chars [OF assms(1) m, of "real_part z"]
   and b = str_int_chars [OF assms(1) m, of "imag_part z"]
   and n = str_nat_chars [OF assms(1), of "nat \<bar>imag_part z\<bar>"]
  from assms(2) a b n show ?thesis
    by (simp add: str_complex_def)
qed

lemma delimiter_free_str_complex: "delimiter_free str_complex M"
proof -
  have "bs \<notin> set (str_complex z)" for z
    by (rule str_complex_chars) simp_all
  moreover have "CHR ''&'' \<notin> set (str_complex z)" for z
    by (rule str_complex_chars) simp_all
  ultimately show ?thesis by (simp add: delimiter_free_def)
qed

section \<open>The body of the output of a matrix without empty rows\<close>

lemma body_of_format_joined:
  assumes "M \<noteq> []" and "[] \<notin> set M"
  shows "body_of (format str M) = Some (join row_delim (map (render_row str) M))"
  using assms by (simp add: format_def gate_latex_of_joined strip_affixes_wrapped)

lemma split_body_rows:
  assumes "M \<noteq> []" and "delimiter_free str M"
  shows "split_on row_delim (join row_delim (map (render_row str) M)) = map (render_row str) M"
proof -
  have "\<forall>p \<in> set (map (render_row str) M). bs \<notin> set p"
    using assms(2) by (auto simp: delimiter_free_def intro!: render_row_no_bs)
  then show ?thesis
    using assms(1) split_on_join [of "map (render_row str) M" bs "[bs]"]
    by (simp add: row_delim_def)
qed

lemma count_body_rows:
  assumes "M \<noteq> []" and "delimiter_free str M"
  shows "count_sub row_delim (join row_delim (map (render_row str) M)) = length M - 1"
proof -
  have "\<forall>p \<in> set (map (render_row str) M). bs \<notin> set p"
    using assms(2) by (auto simp: delimiter_free_def intro!: render_row_no_bs)
  then show ?thesis
    using assms(1) count_sub_join [of "map (render_row str) M" bs "[bs]"]
    by (simp add: row_delim_def)
qed

lemma parse_entries_format:
  assumes "M \<noteq> []" and "[] \<notin> set M" and "delimiter_free str M"
  shows "parse_entries (format str M) = Some (map (map str) M)"
proof -
  have "map (split_on col_delim) (map (render_row str) M) = map (map str) M"
    using assms(2,3) by (auto simp: delimiter_free_def intro!: split_render_row)
  then show ?thesis
    using assms by (simp add: body_of_format_joined split_body_rows)
qed

lemma length_concat_rectangular:
  "rectangular M c \<Longrightarrow> length (concat M) = length M * c"
  by (induction M) (simp_all add: rectangular_def)

section \<open>Zero-size matrices\<close>

text \<open>
  Claim C10. On a matrix with zero rows the outer loop appends nothing, so the final trim
  of two characters cuts into the opening marker: the output is a backslash, \<^verbatim>\<open>begin{pmatri\<close>,
  a backslash and \<^verbatim>\<open>end{pmatrix}\<close>, for every rendering of the elements.
\<close>

theorem format_empty_matrix:
  "format str [] = Inr (bs # ''begin{pmatri'' @ bs # ''end{pmatrix}'')"
  by (simp add: format_def gate_latex_of_Nil pmatrix_suffix_def)

text \<open>
  Claim C3 says that a matrix with zero rows, or with zero columns, gives the prefix
  directly followed by the suffix. Neither the matrix without rows nor the matrix of one
  empty row does.
\<close>

theorem format_zero_size_counterexample:
  "format str_complex [] \<noteq> Inr (pmatrix_prefix @ pmatrix_suffix)
   \<and> format str_complex [[]] \<noteq> Inr (pmatrix_prefix @ pmatrix_suffix)"
  by (simp add: format_def gate_latex_of_Nil gate_latex_of_Cons pmatrix_prefix_def pmatrix_suffix_def)

text \<open>
  Claim C3, amended. The cell trims what it takes for trailing delimiters without looking
  at them. For a matrix with zero rows the output is the prefix without its last two
  characters, followed by the suffix. For a matrix with \<open>n \<ge> 1\<close> rows and zero columns it
  is the prefix without its closing brace, then \<open>n - 1\<close> backslashes, then the suffix. In
  neither case is it the prefix directly followed by the suffix.
\<close>

theorem format_zero_size:
  assumes "rectangular M 0"
  shows "format str M
           = Inr ((if M = [] then bs # ''begin{pmatri''
                   else bs # ''begin{pmatrix'' @ replicate (length M - 1) bs) @ pmatrix_suffix)
         \<and> format str M \<noteq> Inr (pmatrix_prefix @ pmatrix_suffix)"
proof -
  have "(if M = [] then bs # ''begin{pmatri''
         else bs # ''begin{pmatrix'' @ replicate (length M - 1) bs) @ pmatrix_suffix
          \<noteq> pmatrix_prefix @ pmatrix_suffix"
    by (cases "length M - 1") (simp_all add: pmatrix_prefix_def pmatrix_suffix_def)
  then show ?thesis
    by (simp add: format_def gate_latex_of_zero_size [OF assms])
qed

theorem format_zero_size_witness:
  "rectangular ([[], []] :: pycomplex list list) 0
   \<and> format str_complex [[], []] = Inr (bs # ''begin{pmatrix'' @ [bs] @ bs # ''end{pmatrix}'')"
proof -
  have r: "rectangular ([[], []] :: pycomplex list list) 0"
    by (simp add: rectangular_def)
  from format_zero_size [OF r, of str_complex] r show ?thesis
    by (simp add: pmatrix_suffix_def)
qed

text \<open>
  Claim C4 says that the output of every rectangular matrix starts with the prefix. The
  matrix without rows and the matrix of one empty row are rectangular (no two rows
  differ in length), and on both the output does not start with the prefix.
\<close>

theorem format_prefix_counterexample:
  "\<not> starts_with pmatrix_prefix (gate_latex_of str_complex [])
   \<and> \<not> starts_with pmatrix_prefix (gate_latex_of str_complex [[]])"
  by (simp add: gate_latex_of_Nil gate_latex_of_Cons starts_with_def
      pmatrix_prefix_def pmatrix_suffix_def)

text \<open>
  Claim C4, amended. For every rectangular matrix with at least one row and at least one
  column, \<^verbatim>\<open>format\<close> returns a string that starts with the prefix and ends with the
  suffix.
\<close>

theorem format_wrapped:
  assumes "rectangular M c" and "0 < length M" and "0 < c"
  shows "format str M = Inr (gate_latex_of str M)
         \<and> starts_with pmatrix_prefix (gate_latex_of str M)
         \<and> ends_with pmatrix_suffix (gate_latex_of str M)"
proof -
  from rectangular_first_row [OF assms] obtain line rest
    where "M = line # rest" and "line \<noteq> []" by blast
  then show ?thesis
    by (simp add: format_def gate_latex_of_starts_with gate_latex_of_ends_with)
qed

theorem format_wrapped_witness:
  "rectangular [[PyComplex 0 0, PyComplex 1 0], [PyComplex 1 0, PyComplex 0 0]] 2
   \<and> 0 < length [[PyComplex 0 0, PyComplex 1 0], [PyComplex 1 0, PyComplex 0 0]]
   \<and> (0::nat) < 2
   \<and> format str_complex [[PyComplex 0 0, PyComplex 1 0], [PyComplex 1 0, PyComplex 0 0]]
       = Inr (bs # ''begin{pmatrix}0j&(1+0j)'' @ [bs, bs] @ ''(1+0j)&0j'' @ bs # ''end{pmatrix}'')
   \<and> starts_with pmatrix_prefix
         (bs # ''begin{pmatrix}0j&(1+0j)'' @ [bs, bs] @ ''(1+0j)&0j'' @ bs # ''end{pmatrix}'')
   \<and> ends_with pmatrix_suffix
         (bs # ''begin{pmatrix}0j&(1+0j)'' @ [bs, bs] @ ''(1+0j)&0j'' @ bs # ''end{pmatrix}'')"
proof -
  let ?M = "[[PyComplex 0 0, PyComplex 1 0], [PyComplex 1 0, PyComplex 0 0]]"
  have r: "rectangular ?M 2" by (simp add: rectangular_def)
  have n: "0 < length ?M" by simp
  have c: "(0::nat) < 2" by simp
  have out: "gate_latex_of str_complex ?M
               = bs # ''begin{pmatrix}0j&(1+0j)'' @ [bs, bs] @ ''(1+0j)&0j'' @ bs # ''end{pmatrix}''"
    by (simp add: gate_latex_of_Cons render_row_def later_row_def str_complex_0 str_complex_1
        pmatrix_prefix_def pmatrix_suffix_def row_delim_def col_delim_def)
  from format_wrapped [OF r n c, of str_complex] r show ?thesis
    by (simp add: out)
qed

section \<open>Totality and ragged inputs\<close>

text \<open>
  Claim C9. The cell compares no row lengths and has no failing path: on every list of
  rows, ragged or not, \<^verbatim>\<open>format\<close> returns a string, and the string is known in
  closed form. The first row gives its \<open>length line\<close> rendered entries with the column
  delimiter between them (\<open>render_row\<close>) after the prefix; every later row gives the row
  delimiter and its own rendered entries, however many it has; an empty row gives no
  entry (and costs the text before it one character).
\<close>

theorem format_total_ragged:
  "format str M
     = Inr ((case M of
               [] \<Rightarrow> bs # ''begin{pmatri''
             | line # rest \<Rightarrow>
                 (if line = [] then bs # ''begin{pmatrix''
                  else pmatrix_prefix @ render_row str line)
                 @ concat (map (later_row str) rest))
            @ pmatrix_suffix)"
  by (simp only: format_def gate_latex_of_total)

text \<open>
  Claim C2 says that rows of differing length make \<^verbatim>\<open>format\<close> fail with
  \<^verbatim>\<open>InvalidShapeError\<close> and produce no output. On the ragged matrix of the rows
  \<^verbatim>\<open>[0]\<close> and \<^verbatim>\<open>[1, 0]\<close> the cell returns a complete string.
\<close>

theorem format_ragged_counterexample:
  "format str_complex [[PyComplex 0 0], [PyComplex 1 0, PyComplex 0 0]]
     = Inr (bs # ''begin{pmatrix}0j'' @ [bs, bs] @ ''(1+0j)&0j'' @ bs # ''end{pmatrix}'')"
  by (simp add: format_def gate_latex_of_Cons render_row_def later_row_def str_complex_1
      str_complex_0 pmatrix_prefix_def pmatrix_suffix_def row_delim_def col_delim_def)

text \<open>
  Claim C2, amended. For every input whose rows have differing lengths \<^verbatim>\<open>format\<close>
  raises nothing and returns the whole output: the first row rendered after the prefix
  (an empty first row costs the prefix its closing brace), then for every later row the
  row delimiter and the row rendered at its own length (an empty later row adds a single
  backslash instead), then the suffix. When no row is empty this is the prefix, the rows
  rendered each at its own length and joined by the row delimiter, and the suffix.
\<close>

theorem format_ragged_no_error:
  assumes "r1 \<in> set M" and "r2 \<in> set M" and "length r1 \<noteq> length r2"
  shows "format str M \<noteq> Inl InvalidShapeError
         \<and> format str M
             = Inr ((if hd M = [] then bs # ''begin{pmatrix''
                     else pmatrix_prefix @ render_row str (hd M))
                    @ concat (map (later_row str) (tl M)) @ pmatrix_suffix)
         \<and> ([] \<notin> set M \<longrightarrow>
              format str M
                = Inr (pmatrix_prefix @ join row_delim (map (render_row str) M) @ pmatrix_suffix))"
proof -
  from assms(1) obtain line rest where M: "M = line # rest"
    by (cases M) auto
  have no_error: "format str M \<noteq> Inl InvalidShapeError"
    by (simp add: format_def)
  have whole: "format str M
                 = Inr ((if hd M = [] then bs # ''begin{pmatrix''
                         else pmatrix_prefix @ render_row str (hd M))
                        @ concat (map (later_row str) (tl M)) @ pmatrix_suffix)"
    by (simp add: M format_def gate_latex_of_Cons)
  have joined: "format str M
                  = Inr (pmatrix_prefix @ join row_delim (map (render_row str) M) @ pmatrix_suffix)"
    if "[] \<notin> set M"
    using that M by (simp add: format_def gate_latex_of_joined)
  from no_error whole joined show ?thesis by blast
qed

theorem format_ragged_no_error_witness:
  "[PyComplex 0 0] \<in> set [[PyComplex 0 0], [PyComplex 1 0, PyComplex 0 0]]
   \<and> [PyComplex 1 0, PyComplex 0 0] \<in> set [[PyComplex 0 0], [PyComplex 1 0, PyComplex 0 0]]
   \<and> length [PyComplex 0 0] \<noteq> length [PyComplex 1 0, PyComplex 0 0]
   \<and> [] \<notin> set [[PyComplex 0 0], [PyComplex 1 0, PyComplex 0 0]]
   \<and> format str_complex [[PyComplex 0 0], [PyComplex 1 0, PyComplex 0 0]]
        = Inr (pmatrix_prefix @ ''0j'' @ row_delim @ ''(1+0j)&0j'' @ pmatrix_suffix)"
proof -
  let ?M = "[[PyComplex 0 0], [PyComplex 1 0, PyComplex 0 0]]"
  have a: "[PyComplex 0 0] \<in> set ?M" and b: "[PyComplex 1 0, PyComplex 0 0] \<in> set ?M"
    and c: "length [PyComplex 0 0] \<noteq> length [PyComplex 1 0, PyComplex 0 0]"
    and d: "[] \<notin> set ?M"
    by simp_all
  from format_ragged_no_error [OF a b c, of str_complex] d
  have "format str_complex ?M
          = Inr (pmatrix_prefix @ join row_delim (map (render_row str_complex) ?M) @ pmatrix_suffix)"
    by blast
  then show ?thesis
    by (simp add: render_row_def str_complex_1 str_complex_0 col_delim_def)
qed

section \<open>The effects of a run\<close>

text \<open>
  Claim C8 says that a run has no effect other than producing the string. A run on the
  one-by-one matrix from a fresh state leaves the loop variables \<^verbatim>\<open>line\<close> and
  \<^verbatim>\<open>element\<close> bound and hands the string to \<^verbatim>\<open>display\<close>: the final state is not the
  initial one with the string put into \<^verbatim>\<open>gate_latex\<close>.
\<close>

theorem run_cell_effects_counterexample:
  "run_cell str_complex (fresh_cell [[PyComplex 1 0]])
     \<noteq> (fresh_cell [[PyComplex 1 0]])\<lparr>gate_latex := gate_latex_of str_complex [[PyComplex 1 0]]\<rparr>
   \<and> loop_line (fresh_cell [[PyComplex 1 0]]) = None
   \<and> loop_line (run_cell str_complex (fresh_cell [[PyComplex 1 0]])) = Some [PyComplex 1 0]
   \<and> loop_element (run_cell str_complex (fresh_cell [[PyComplex 1 0]])) = Some (PyComplex 1 0)
   \<and> displayed (run_cell str_complex (fresh_cell [[PyComplex 1 0]]))
       = [bs # ''begin{pmatrix}(1+0j)'' @ bs # ''end{pmatrix}'']"
proof -
  have out: "gate_latex_of str_complex [[PyComplex 1 0]]
               = bs # ''begin{pmatrix}(1+0j)'' @ bs # ''end{pmatrix}''"
    by (simp add: gate_latex_of_Cons render_row_def str_complex_1 pmatrix_prefix_def
        pmatrix_suffix_def)
  have l: "loop_line (run_cell str_complex (fresh_cell [[PyComplex 1 0]])) = Some [PyComplex 1 0]"
    by (simp add: run_cell_frame fresh_cell_def)
  have "loop_line ((fresh_cell [[PyComplex 1 0]])
                     \<lparr>gate_latex := gate_latex_of str_complex [[PyComplex 1 0]]\<rparr>) = None"
    by (simp add: fresh_cell_def)
  with l have "run_cell str_complex (fresh_cell [[PyComplex 1 0]])
     \<noteq> (fresh_cell [[PyComplex 1 0]])\<lparr>gate_latex := gate_latex_of str_complex [[PyComplex 1 0]]\<rparr>"
    by auto
  then show ?thesis
    using l by (simp add: run_cell_frame fresh_cell_def out)
qed

text \<open>
  Claim C8, amended. The string is a function of the matrix alone: two runs of the cell
  on the same matrix build and display equal strings, whatever the variables held before
  (the cell overwrites \<^verbatim>\<open>gate_latex\<close> first), and a run leaves the matrix as it was.
  Besides producing the string, a run has exactly these effects: \<^verbatim>\<open>gate_latex\<close> holds the
  string; \<^verbatim>\<open>line\<close> is bound to the last row and \<^verbatim>\<open>element\<close> to the last element visited
  (each keeps its old value when there is none); the string is handed to \<^verbatim>\<open>display\<close>
  once; the three imported names are bound.
\<close>

theorem run_cell_deterministic:
  assumes "gate s = gate s'"
  shows "gate_latex (run_cell str s) = gate_latex (run_cell str s')
         \<and> format str (gate s) = Inr (gate_latex (run_cell str s))
         \<and> run_cell str s
             = s\<lparr>gate_latex := gate_latex_of str (gate s),
                 loop_line := (if gate s = [] then loop_line s else Some (last (gate s))),
                 loop_element := last_element (gate s) (loop_element s),
                 displayed := displayed s @ [gate_latex_of str (gate s)],
                 imported := imported s \<union> {''display'', ''Markdown'', ''Latex''}\<rparr>"
  using assms by (simp add: run_cell_frame format_def)

theorem run_cell_deterministic_witness:
  "gate \<lparr>gate = [[PyComplex 1 0]], gate_latex = ''stale'', loop_line = Some [],
        loop_element = None, displayed = [''old''], imported = {}\<rparr>
     = gate (fresh_cell [[PyComplex 1 0]])
   \<and> gate_latex (run_cell str_complex
       \<lparr>gate = [[PyComplex 1 0]], gate_latex = ''stale'', loop_line = Some [],
        loop_element = None, displayed = [''old''], imported = {}\<rparr>)
     = gate_latex (run_cell str_complex (fresh_cell [[PyComplex 1 0]]))
   \<and> run_cell str_complex
       \<lparr>gate = [[PyComplex 1 0]], gate_latex = ''stale'', loop_line = Some [],
        loop_element = None, displayed = [''old''], imported = {}\<rparr>
     = \<lparr>gate = [[PyComplex 1 0]],
        gate_latex = bs # ''begin{pmatrix}(1+0j)'' @ bs # ''end{pmatrix}'',
        loop_line = Some [PyComplex 1 0], loop_element = Some (PyComplex 1 0),
        displayed = [''old'', bs # ''begin{pmatrix}(1+0j)'' @ bs # ''end{pmatrix}''],
        imported = {''display'', ''Markdown'', ''Latex''}\<rparr>"
proof -
  let ?s = "\<lparr>gate = [[PyComplex 1 0]], gate_latex = ''stale'', loop_line = Some [],
        loop_element = None, displayed = [''old''], imported = {}\<rparr>"
  let ?s' = "fresh_cell [[PyComplex 1 0]]"
  have same: "gate ?s = gate ?s'" by (simp add: fresh_cell_def)
  have out: "gate_latex_of str_complex [[PyComplex 1 0]]
               = bs # ''begin{pmatrix}(1+0j)'' @ bs # ''end{pmatrix}''"
    by (simp add: gate_latex_of_Cons render_row_def str_complex_1 pmatrix_prefix_def
        pmatrix_suffix_def)
  from run_cell_deterministic [OF same, of str_complex] same show ?thesis
    by (auto simp: out)
qed

section \<open>Concrete matrices\<close>

text \<open>
  Claim C7. The matrix of one row and one column that holds \<open>1+0i\<close> is displayed as the
  prefix, \<^verbatim>\<open>(1+0j)\<close> and the suffix, with no delimiter.
\<close>

theorem format_one_by_one:
  "format str_complex [[PyComplex 1 0]]
     = Inr (bs # ''begin{pmatrix}(1+0j)'' @ bs # ''end{pmatrix}'')"
  by (simp add: format_def gate_latex_of_Cons render_row_def str_complex_1
      pmatrix_prefix_def pmatrix_suffix_def)

section \<open>Entries and delimiters of the output\<close>

text \<open>
  Claim C1 says that for every rectangular matrix the output, stripped of prefix and
  suffix and split on the delimiters, gives \<open>rows \<times> cols\<close> entries. The matrix without rows
  is rectangular and has no entry, but its output does not start with the prefix, so no
  body can be read from it; and the empty body, if there were one, would split into one
  empty entry, not into none.
\<close>

theorem format_entries_empty_counterexample:
  "parse_entries (format str_complex []) = None
   \<and> map (split_on col_delim) (split_on row_delim []) = [[[]]]"
  by (simp add: format_def gate_latex_of_Nil strip_affixes_def starts_with_def
      pmatrix_prefix_def pmatrix_suffix_def split_on.simps)

text \<open>
  Claim C1, amended. For every rectangular matrix \<open>M\<close> with at least one row and at
  least one column, whose rendered elements hold no delimiter character, stripping the
  prefix and suffix from the output and splitting the rest on the row delimiter and then
  on the column delimiter gives the rows of \<open>M\<close> with every element replaced by its
  rendering: the entry at position \<open>(i, j)\<close> is \<open>str (M ! i ! j)\<close>, there are
  \<open>rows \<times> cols\<close> entries, and read in row-major order they are the renderings of the
  elements in row-major order.
\<close>

theorem format_entries_roundtrip:
  assumes "rectangular M c" and "0 < length M" and "0 < c" and "delimiter_free str M"
  shows "parse_entries (format str M) = Some (map (map str) M)
         \<and> concat (map (map str) M) = map str (concat M)
         \<and> length (concat (map (map str) M)) = length M * c"
proof -
  from assms(1,3) have ne: "[] \<notin> set M" by (auto simp: rectangular_def)
  from assms(2) have M: "M \<noteq> []" by auto
  have "length (concat (map (map str) M)) = length (concat M)"
    by (simp add: map_concat [symmetric])
  then show ?thesis
    using parse_entries_format [OF M ne assms(4)] length_concat_rectangular [OF assms(1)]
    by (simp add: map_concat)
qed

theorem format_entries_roundtrip_witness:
  "rectangular [[PyComplex 0 0, PyComplex 1 0], [PyComplex 1 0, PyComplex 0 0]] 2
   \<and> 0 < length [[PyComplex 0 0, PyComplex 1 0], [PyComplex 1 0, PyComplex 0 0]]
   \<and> (0::nat) < 2
   \<and> delimiter_free str_complex [[PyComplex 0 0, PyComplex 1 0], [PyComplex 1 0, PyComplex 0 0]]
   \<and> parse_entries (format str_complex [[PyComplex 0 0, PyComplex 1 0], [PyComplex 1 0, PyComplex 0 0]])
       = Some [[''0j'', ''(1+0j)''], [''(1+0j)'', ''0j'']]"
proof -
  let ?M = "[[PyComplex 0 0, PyComplex 1 0], [PyComplex 1 0, PyComplex 0 0]]"
  have r: "rectangular ?M 2" by (simp add: rectangular_def)
  have n: "0 < length ?M" by simp
  have c: "(0::nat) < 2" by simp
  have d: "delimiter_free str_complex ?M"
    by (simp add: delimiter_free_def str_complex_0 str_complex_1)
  from format_entries_roundtrip [OF r n c d] r d show ?thesis
    by (simp add: str_complex_0 str_complex_1)
qed

text \<open>
  Claim C5 says that for every matrix the body holds \<open>rows - 1\<close> row delimiters and every
  rendered row \<open>cols - 1\<close> column delimiters. For the matrix without rows \<open>rows - 1\<close> is
  negative, and the output of that matrix, like that of the matrix of one empty row, has
  no body: it does not start with the prefix.
\<close>

theorem format_delimiter_counts_empty_counterexample:
  "body_of (format str_complex []) = None
   \<and> int (length ([] :: pycomplex list list)) - 1 = - 1
   \<and> body_of (format str_complex [[]]) = None"
  by (simp add: format_def gate_latex_of_Nil gate_latex_of_Cons strip_affixes_def starts_with_def
      pmatrix_prefix_def pmatrix_suffix_def)

text \<open>
  Claim C5, amended. For every rectangular matrix \<open>M\<close> with at least one row and at
  least one column, whose rendered elements hold no delimiter character, the body of the
  output is the rendered rows joined by the row delimiter; it holds exactly
  \<open>rows - 1\<close> row delimiters, which split it into the rendered rows, and every rendered
  row holds exactly \<open>cols - 1\<close> column delimiters.
\<close>

theorem format_delimiter_counts:
  assumes "rectangular M c" and "0 < length M" and "0 < c" and "delimiter_free str M"
  shows "body_of (format str M) = Some (join row_delim (map (render_row str) M))
         \<and> count_sub row_delim (join row_delim (map (render_row str) M)) = length M - 1
         \<and> split_on row_delim (join row_delim (map (render_row str) M)) = map (render_row str) M
         \<and> (\<forall>line \<in> set M. count_sub col_delim (render_row str line) = c - 1)"
proof -
  from assms(1,3) have ne: "[] \<notin> set M" by (auto simp: rectangular_def)
  from assms(2) have M: "M \<noteq> []" by auto
  have "\<forall>line \<in> set M. count_sub col_delim (render_row str line) = c - 1"
  proof
    fix line assume l: "line \<in> set M"
    with ne have "line \<noteq> []" by auto
    moreover from l assms(4) have "\<forall>e \<in> set line. CHR ''&'' \<notin> set (str e)"
      by (auto simp: delimiter_free_def)
    moreover from l assms(1) have "length line = c" by (simp add: rectangular_def)
    ultimately show "count_sub col_delim (render_row str line) = c - 1"
      by (simp add: count_render_row)
  qed
  then show ?thesis
    using body_of_format_joined [OF M ne] split_body_rows [OF M assms(4)]
      count_body_rows [OF M assms(4)] by simp
qed

theorem format_delimiter_counts_witness:
  "rectangular [[PyComplex 0 0, PyComplex 1 0], [PyComplex 1 0, PyComplex 0 0]] 2
   \<and> 0 < length [[PyComplex 0 0, PyComplex 1 0], [PyComplex 1 0, PyComplex 0 0]]
   \<and> (0::nat) < 2
   \<and> delimiter_free str_complex [[PyComplex 0 0, PyComplex 1 0], [PyComplex 1 0, PyComplex 0 0]]
   \<and> body_of (format str_complex [[PyComplex 0 0, PyComplex 1 0], [PyComplex 1 0, PyComplex 0 0]])
       = Some (''0j&(1+0j)'' @ [bs, bs] @ ''(1+0j)&0j'')
   \<and> count_sub row_delim (''0j&(1+0j)'' @ [bs, bs] @ ''(1+0j)&0j'') = 1
   \<and> count_sub col_delim ''0j&(1+0j)'' = 1
   \<and> count_sub col_delim ''(1+0j)&0j'' = 1"
proof -
  let ?M = "[[PyComplex 0 0, PyComplex 1 0], [PyComplex 1 0, PyComplex 0 0]]"
  have r: "rectangular ?M 2" by (simp add: rectangular_def)
  have n: "0 < length ?M" by simp
  have c: "(0::nat) < 2" by simp
  have d: "delimiter_free str_complex ?M"
    by (simp add: delimiter_free_def str_complex_0 str_complex_1)
  from format_delimiter_counts [OF r n c d] r d show ?thesis
    by (simp add: render_row_def str_complex_0 str_complex_1 row_delim_def col_delim_def)
qed

text \<open>
  Claim C6. For the 4 by 4 matrix of the example, the rows \<open>[0,1,0,0]\<close>, \<open>[1,0,0,0]\<close>,
  \<open>[0,0,0,-1]\<close> and \<open>[0,0,-1,0]\<close>, the output is the string recorded in the notebook, and
  its entries, read in row-major order, are the renderings of these sixteen values in
  this order.
\<close>

theorem format_zx_unitary:
  "format str_complex zx_unitary
     = Inr (bs # ''begin{pmatrix}0j&(1+0j)&0j&0j'' @ [bs, bs] @ ''(1+0j)&0j&0j&0j'' @ [bs, bs]
            @ ''0j&0j&0j&(-1+0j)'' @ [bs, bs] @ ''0j&0j&(-1+0j)&0j'' @ bs # ''end{pmatrix}'')
   \<and> parse_entries (format str_complex zx_unitary) = Some (map (map str_complex) zx_unitary)
   \<and> concat (map (map str_complex) zx_unitary)
       = [''0j'', ''(1+0j)'', ''0j'', ''0j'',
          ''(1+0j)'', ''0j'', ''0j'', ''0j'',
          ''0j'', ''0j'', ''0j'', ''(-1+0j)'',
          ''0j'', ''0j'', ''(-1+0j)'', ''0j'']"
proof -
  have ne: "zx_unitary \<noteq> []" and rows: "[] \<notin> set zx_unitary"
    by (simp_all add: zx_unitary_def)
  have out: "gate_latex_of str_complex zx_unitary
               = bs # ''begin{pmatrix}0j&(1+0j)&0j&0j'' @ [bs, bs] @ ''(1+0j)&0j&0j&0j'' @ [bs, bs]
                 @ ''0j&0j&0j&(-1+0j)'' @ [bs, bs] @ ''0j&0j&(-1+0j)&0j'' @ bs # ''end{pmatrix}''"
    unfolding gate_latex_of_joined [OF ne rows]
    by (simp add: zx_unitary_def render_row_def str_complex_0 str_complex_1 str_complex_m1
        pmatrix_prefix_def pmatrix_suffix_def row_delim_def col_delim_def)
  have entries: "concat (map (map str_complex) zx_unitary)
       = [''0j'', ''(1+0j)'', ''0j'', ''0j'',
          ''(1+0j)'', ''0j'', ''0j'', ''0j'',
          ''0j'', ''0j'', ''0j'', ''(-1+0j)'',
          ''0j'', ''0j'', ''(-1+0j)'', ''0j'']"
    by (simp add: zx_unitary_def str_complex_0 str_complex_1 str_complex_m1)
  show ?thesis
    using out entries parse_entries_format [OF ne rows delimiter_free_str_complex]
    by (simp only: format_def simp_thms)
qed

end
